theory Spec2Isabelle
  imports Main
begin

section \<open>The Python runtime, as far as the parser uses it\<close>

text \<open>
  Strings are lists of characters; the model covers ASCII text, which is what trace files,
  addresses, selectors and ABI type tags consist of. A \<open>bytes\<close> object is a character
  list as well, one character per byte.
\<close>

datatype error = ValueError | OverflowError

subsection \<open>Case conversion, prefixes and suffixes\<close>

definition upper_letters :: string where
  "upper_letters = ''ABCDEFGHIJKLMNOPQRSTUVWXYZ''"

definition lower_letters :: string where
  "lower_letters = ''abcdefghijklmnopqrstuvwxyz''"

definition lower_char :: "char \<Rightarrow> char" where
  "lower_char c = (case map_of (zip upper_letters lower_letters) c of None \<Rightarrow> c | Some d \<Rightarrow> d)"

definition upper_char :: "char \<Rightarrow> char" where
  "upper_char c = (case map_of (zip lower_letters upper_letters) c of None \<Rightarrow> c | Some d \<Rightarrow> d)"

definition py_lower :: "string \<Rightarrow> string" where
  "py_lower s = map lower_char s"

definition py_upper :: "string \<Rightarrow> string" where
  "py_upper s = map upper_char s"

definition startswith :: "string \<Rightarrow> string \<Rightarrow> bool" where
  "startswith s p = (take (length p) s = p)"

definition endswith :: "string \<Rightarrow> string \<Rightarrow> bool" where
  "endswith s p = (length p \<le> length s \<and> drop (length s - length p) s = p)"

fun py_join :: "string \<Rightarrow> string list \<Rightarrow> string" where
  "py_join sep [] = []"
| "py_join sep [x] = x"
| "py_join sep (x # y # ys) = x @ sep @ py_join sep (y # ys)"

subsection \<open>Integers to text\<close>

definition digit_char :: "int \<Rightarrow> char" where
  "digit_char d = ''0123456789'' ! nat d"

function dec_digits :: "int \<Rightarrow> string" where
  "dec_digits n = (if n < 10 then [digit_char n] else dec_digits (n div 10) @ [digit_char (n mod 10)])"
  by pat_completeness auto
termination
  by (relation "measure nat") auto

declare dec_digits.simps [simp del]

text \<open>\<open>str(n)\<close> for an integer.\<close>
definition str_int :: "int \<Rightarrow> string" where
  "str_int n = (if n < 0 then CHR ''-'' # dec_digits (- n) else dec_digits n)"

definition str_nat :: "nat \<Rightarrow> string" where
  "str_nat n = dec_digits (int n)"

fun commas_rev :: "string \<Rightarrow> string" where
  "commas_rev (a # b # c # d # r) = a # b # c # CHR '','' # commas_rev (d # r)"
| "commas_rev r = r"

text \<open>The format specification \<open>{n:,}\<close>: groups of three digits, separated by commas.\<close>
definition format_commas :: "int \<Rightarrow> string" where
  "format_commas n =
     (if n < 0 then CHR ''-'' # rev (commas_rev (rev (dec_digits (- n))))
      else rev (commas_rev (rev (dec_digits n))))"

subsection \<open>Hexadecimal text and bytes\<close>

definition hex_digits :: string where
  "hex_digits = ''0123456789abcdef''"

definition nibble_char :: "bool \<Rightarrow> bool \<Rightarrow> bool \<Rightarrow> bool \<Rightarrow> char" where
  "nibble_char b3 b2 b1 b0 =
     hex_digits ! ((if b3 then 8 else 0) + (if b2 then 4 else 0) + (if b1 then 2 else 0) + (if b0 then 1 else 0))"

fun hex_of_byte :: "char \<Rightarrow> string" where
  "hex_of_byte (Char b0 b1 b2 b3 b4 b5 b6 b7) = [nibble_char b7 b6 b5 b4, nibble_char b3 b2 b1 b0]"

text \<open>\<open>bytes.hex()\<close>\<close>
definition bytes_hex :: "string \<Rightarrow> string" where
  "bytes_hex bs = concat (map hex_of_byte bs)"

definition hex_value :: "char \<Rightarrow> nat option" where
  "hex_value c = map_of (zip ''0123456789abcdefABCDEF''
     [0, 1, 2, 3, 4, 5, 6, 7, 8, 9, 10, 11, 12, 13, 14, 15, 10, 11, 12, 13, 14, 15]) c"

definition is_hex_digit :: "char \<Rightarrow> bool" where
  "is_hex_digit c = (hex_value c \<noteq> None)"

definition byte_of_nibbles :: "nat \<Rightarrow> nat \<Rightarrow> char" where
  "byte_of_nibbles h l =
     Char (odd l) (odd (l div 2)) (odd (l div 4)) (odd (l div 8))
          (odd h) (odd (h div 2)) (odd (h div 4)) (odd (h div 8))"

definition is_space :: "char \<Rightarrow> bool" where
  "is_space c = (c \<in> set [CHR '' '', CHR 0x09, CHR 0x0A, CHR 0x0B, CHR 0x0C, CHR 0x0D])"

text \<open>
  \<open>bytes.fromhex(s)\<close>: pairs of hexadecimal digits, ASCII whitespace allowed between
  the pairs; \<open>None\<close> stands for the \<open>ValueError\<close> it raises on anything else.
\<close>
fun bytes_fromhex :: "string \<Rightarrow> string option" where
  "bytes_fromhex [] = Some []"
| "bytes_fromhex [c] = (if is_space c then Some [] else None)"
| "bytes_fromhex (c # d # r) =
     (if is_space c then bytes_fromhex (d # r)
      else (case (hex_value c, hex_value d) of
              (Some h, Some l) \<Rightarrow> map_option ((#) (byte_of_nibbles h l)) (bytes_fromhex r)
            | _ \<Rightarrow> None))"

subsection \<open>Text to integers\<close>

definition py_strip :: "string \<Rightarrow> string" where
  "py_strip s = rev (dropWhile is_space (rev (dropWhile is_space s)))"

definition digit_value :: "int \<Rightarrow> char \<Rightarrow> int option" where
  "digit_value base c =
     (case hex_value c of
        None \<Rightarrow> None
      | Some d \<Rightarrow> if int d < base then Some (int d) else None)"

text \<open>Digits, with single underscores allowed between two digits.\<close>
fun digits_acc :: "int \<Rightarrow> int \<Rightarrow> bool \<Rightarrow> string \<Rightarrow> int option" where
  "digits_acc base acc prev [] = (if prev then Some acc else None)"
| "digits_acc base acc prev (c # cs) =
     (if c = CHR ''_'' then (if prev then digits_acc base acc False cs else None)
      else (case digit_value base c of
              None \<Rightarrow> None
            | Some d \<Rightarrow> digits_acc base (acc * base + d) True cs))"

definition strip_sign :: "string \<Rightarrow> bool \<times> string" where
  "strip_sign s =
     (case s of
        [] \<Rightarrow> (False, [])
      | c # r \<Rightarrow> if c = CHR ''-'' then (True, r) else if c = CHR ''+'' then (False, r) else (False, s))"

definition strip_hex_prefix :: "string \<Rightarrow> string" where
  "strip_hex_prefix s =
     (if startswith s ''0x'' \<or> startswith s ''0X''
      then (if startswith (drop 2 s) ''_'' then drop 3 s else drop 2 s)
      else s)"

text \<open>
  \<open>int(s, base)\<close> for base 10 and base 16: surrounding whitespace, an optional sign,
  for base 16 an optional \<open>0x\<close>, then the digits. \<open>None\<close> stands for \<open>ValueError\<close>.
\<close>
definition py_int :: "int \<Rightarrow> string \<Rightarrow> int option" where
  "py_int base s =
     (let (neg, body) = strip_sign (py_strip s);
          ds = (if base = 16 then strip_hex_prefix body else body)
      in map_option (\<lambda>n. if neg then - n else n) (digits_acc base 0 False ds))"

section \<open>Keccak-256 and checksum addresses\<close>

text \<open>
  \<open>eth_utils.keccak\<close> is a library function; it is given here by the Keccak
  reference algorithm (the sponge over Keccak-f[1600], rate 136 bytes, padding byte
  \<open>0x01\<close>, 32 bytes of output). A lane is a list of 64 bits, least significant bit first,
  and the state is the list of the 25 lanes, lane \<open>(x, y)\<close> at position \<open>x + 5 * y\<close>.
\<close>

type_synonym lane = "bool list"

fun xor_lane :: "lane \<Rightarrow> lane \<Rightarrow> lane" where
  "xor_lane (a # as) (b # bs) = (a \<noteq> b) # xor_lane as bs"
| "xor_lane _ _ = []"

fun chi_lane :: "lane \<Rightarrow> lane \<Rightarrow> lane \<Rightarrow> lane" where
  "chi_lane (a # as) (b # bs) (c # cs) = (a \<noteq> (\<not> b \<and> c)) # chi_lane as bs cs"
| "chi_lane _ _ _ = []"

definition rotl :: "nat \<Rightarrow> lane \<Rightarrow> lane" where
  "rotl n w = drop (64 - n) w @ take (64 - n) w"

fun bits_of_int :: "nat \<Rightarrow> int \<Rightarrow> bool list" where
  "bits_of_int 0 k = []"
| "bits_of_int (Suc n) k = odd k # bits_of_int n (k div 2)"

fun bits_of_char :: "char \<Rightarrow> bool list" where
  "bits_of_char (Char b0 b1 b2 b3 b4 b5 b6 b7) = [b0, b1, b2, b3, b4, b5, b6, b7]"

fun char_of_bits :: "bool list \<Rightarrow> char" where
  "char_of_bits [b0, b1, b2, b3, b4, b5, b6, b7] = Char b0 b1 b2 b3 b4 b5 b6 b7"
| "char_of_bits _ = CHR 0x00"

definition keccak_rc :: "int list" where
  "keccak_rc =
    [0x0000000000000001, 0x0000000000008082, 0x800000000000808A, 0x8000000080008000,
     0x000000000000808B, 0x0000000080000001, 0x8000000080008081, 0x8000000000008009,
     0x000000000000008A, 0x0000000000000088, 0x0000000080008009, 0x000000008000000A,
     0x000000008000808B, 0x800000000000008B, 0x8000000000008089, 0x8000000000008003,
     0x8000000000008002, 0x8000000000000080, 0x000000000000800A, 0x800000008000000A,
     0x8000000080008081, 0x8000000000008080, 0x0000000080000001, 0x8000000080008008]"

text \<open>
  The steps rho and pi together: the lane that ends at position \<open>x + 5 * y\<close> comes from
  the position given first, rotated by the offset given second.
\<close>
definition rho_pi_table :: "(nat \<times> nat) list" where
  "rho_pi_table =
    [(0, 0), (6, 44), (12, 43), (18, 21), (24, 14),
     (3, 28), (9, 20), (10, 3), (16, 45), (22, 61),
     (1, 1), (7, 6), (13, 25), (19, 8), (20, 18),
     (4, 27), (5, 36), (11, 10), (17, 15), (23, 56),
     (2, 62), (8, 55), (14, 39), (15, 41), (21, 2)]"

fun xor_row :: "lane list \<Rightarrow> lane list \<Rightarrow> lane list" where
  "xor_row (a # as) (b # bs) = xor_lane a b # xor_row as bs"
| "xor_row _ _ = []"

definition rows :: "lane list \<Rightarrow> lane list list" where
  "rows a = [take 5 a, take 5 (drop 5 a), take 5 (drop 10 a), take 5 (drop 15 a), take 5 (drop 20 a)]"

fun theta_c :: "lane list list \<Rightarrow> lane list" where
  "theta_c [] = []"
| "theta_c [r] = r"
| "theta_c (r # rs) = xor_row r (theta_c rs)"

definition theta_d :: "lane list \<Rightarrow> lane list" where
  "theta_d c = xor_row (rotate 4 c) (map (rotl 1) (rotate1 c))"

definition theta :: "lane list \<Rightarrow> lane list" where
  "theta a = concat (map (xor_row (theta_d (theta_c (rows a)))) (rows a))"

fun rho_pi_aux :: "lane list \<Rightarrow> (nat \<times> nat) list \<Rightarrow> lane list" where
  "rho_pi_aux a [] = []"
| "rho_pi_aux a ((j, r) # t) = rotl r (a ! j) # rho_pi_aux a t"

definition rho_pi :: "lane list \<Rightarrow> lane list" where
  "rho_pi a = rho_pi_aux a rho_pi_table"

fun chi_row :: "lane list \<Rightarrow> lane list" where
  "chi_row [b0, b1, b2, b3, b4] =
     [chi_lane b0 b1 b2, chi_lane b1 b2 b3, chi_lane b2 b3 b4, chi_lane b3 b4 b0, chi_lane b4 b0 b1]"
| "chi_row _ = []"

definition chi :: "lane list \<Rightarrow> lane list" where
  "chi b = concat (map chi_row (rows b))"

fun iota :: "nat \<Rightarrow> lane list \<Rightarrow> lane list" where
  "iota r [] = []"
| "iota r (a # as) = xor_lane a (bits_of_int 64 (keccak_rc ! r)) # as"

definition keccak_round :: "lane list \<Rightarrow> nat \<Rightarrow> lane list" where
  "keccak_round a r = iota r (chi (rho_pi (theta a)))"

definition keccak_f :: "lane list \<Rightarrow> lane list" where
  "keccak_f a = foldl keccak_round a [0..<24]"

fun chunks :: "nat \<Rightarrow> 'a list \<Rightarrow> 'a list list" where
  "chunks n [] = []"
| "chunks n (x # xs) = (if n = 0 then [x # xs] else take n (x # xs) # chunks n (drop n (x # xs)))"

definition keccak_pad :: "string \<Rightarrow> string" where
  "keccak_pad m =
     (let q = 136 - length m mod 136
      in if q = 1 then m @ [CHR 0x81]
         else m @ [CHR 0x01] @ replicate (q - 2) (CHR 0x00) @ [CHR 0x80])"

definition absorb :: "lane list \<Rightarrow> string \<Rightarrow> lane list" where
  "absorb st block =
     keccak_f (xor_row st (chunks 64 (concat (map bits_of_char block)) @ replicate 8 (replicate 64 False)))"

text \<open>\<open>keccak(bs)\<close>: the 32 bytes of the Keccak-256 digest of the bytes \<open>bs\<close>.\<close>
definition keccak :: "string \<Rightarrow> string" where
  "keccak m =
     map char_of_bits (chunks 8 (concat (take 4
       (foldl absorb (replicate 25 (replicate 64 False)) (chunks 136 (keccak_pad m))))))"

text \<open>
  \<open>eth_utils.to_checksum_address(value)\<close> for a string: the value must be 40
  hexadecimal digits, with or without a \<open>0x\<close> prefix (\<open>None\<close> stands for the
  \<open>ValueError\<close> raised otherwise); the address is lower-cased, and each digit is put in
  upper case where the digit at the same position of the hexadecimal Keccak digest of
  the lower-cased digits is above 7.
\<close>
definition remove_0x_prefix :: "string \<Rightarrow> string" where
  "remove_0x_prefix s = (if startswith s ''0x'' \<or> startswith s ''0X'' then drop 2 s else s)"

definition is_hex_address :: "string \<Rightarrow> bool" where
  "is_hex_address s = (length (remove_0x_prefix s) = 40 \<and> list_all is_hex_digit (remove_0x_prefix s))"

fun checksum_digits :: "string \<Rightarrow> string \<Rightarrow> string" where
  "checksum_digits (c # cs) (h # hs) =
     (if h \<in> set ''89abcdef'' then upper_char c else c) # checksum_digits cs hs"
| "checksum_digits _ _ = []"

definition to_checksum_address :: "string \<Rightarrow> string option" where
  "to_checksum_address v =
     (if is_hex_address v
      then (let norm = py_lower (remove_0x_prefix v)
            in Some (''0x'' @ checksum_digits norm (bytes_hex (keccak norm))))
      else None)"

section \<open>Decoded values and their text\<close>

text \<open>
  The values \<open>eth_abi.decode\<close> hands to the formatter are dynamically typed: integers,
  booleans, byte strings, text (addresses and ABI strings) and tuples of values; a list
  is accepted by the formatter as well.
\<close>

datatype pyval =
    VInt int
  | VBool bool
  | VBytes string
  | VStr string
  | VTuple "pyval list"
  | VList "pyval list"

definition repr_quote :: "string \<Rightarrow> char" where
  "repr_quote s = (if CHR 0x27 \<in> set s \<and> CHR 0x22 \<notin> set s then CHR 0x22 else CHR 0x27)"

definition repr_char :: "char \<Rightarrow> char \<Rightarrow> string" where
  "repr_char q c =
     (if c = q \<or> c = CHR 0x5C then [CHR 0x5C, c]
      else if c = CHR 0x09 then [CHR 0x5C, CHR ''t'']
      else if c = CHR 0x0A then [CHR 0x5C, CHR ''n'']
      else if c = CHR 0x0D then [CHR 0x5C, CHR ''r'']
      else if (of_char c :: nat) < 32 \<or> 127 \<le> (of_char c :: nat) then [CHR 0x5C, CHR ''x''] @ hex_of_byte c
      else [c])"

text \<open>\<open>repr\<close> of a text or byte string, without the \<open>b\<close> that precedes bytes.\<close>
definition repr_quoted :: "string \<Rightarrow> string" where
  "repr_quoted s = repr_quote s # concat (map (repr_char (repr_quote s)) s) @ [repr_quote s]"

fun py_repr :: "pyval \<Rightarrow> string"
  and py_reprs :: "pyval list \<Rightarrow> string list" where
  "py_repr (VInt n) = str_int n"
| "py_repr (VBool b) = (if b then ''True'' else ''False'')"
| "py_repr (VBytes bs) = CHR ''b'' # repr_quoted bs"
| "py_repr (VStr s) = repr_quoted s"
| "py_repr (VTuple vs) =
     (case vs of
        [v] \<Rightarrow> ''('' @ py_repr v @ '',)''
      | _ \<Rightarrow> ''('' @ py_join '', '' (py_reprs vs) @ '')'')"
| "py_repr (VList vs) = ''['' @ py_join '', '' (py_reprs vs) @ '']''"
| "py_reprs [] = []"
| "py_reprs (v # vs) = py_repr v # py_reprs vs"

text \<open>\<open>str(v)\<close>: the text itself for a string, \<open>repr\<close> for everything else.\<close>
definition py_str :: "pyval \<Rightarrow> string" where
  "py_str v = (case v of VStr s \<Rightarrow> s | _ \<Rightarrow> py_repr v)"

section \<open>The data model of the parser\<close>

record FunctionInfo =
  fi_name :: string
  fi_signature :: string
  fi_input_types :: "string list"
  fi_output_types :: "string list"
  fi_input_names :: "string list"
  fi_output_names :: "string list"

record ContractInfo =
  ci_address :: string
  ci_name :: string
  ci_functions :: "string \<rightharpoonup> FunctionInfo"
  ci_abi :: string

text \<open>
  The entries of a parsed ABI. Every key is read with \<open>dict.get\<close>, so a key may be
  missing: \<open>None\<close> is the missing key.
\<close>

record abi_param =
  p_type :: "string option"
  p_name :: "string option"

record abi_item =
  i_type :: "string option"
  i_name :: "string option"
  i_inputs :: "abi_param list option"
  i_outputs :: "abi_param list option"

text \<open>A record of \<open>trace_transaction\<close>, with its \<open>action\<close> and \<open>result\<close> objects.\<close>

record trace_action =
  a_callType :: "string option"
  a_from :: "string option"
  a_to :: "string option"
  a_value :: "string option"
  a_input :: "string option"

record trace_result =
  r_output :: "string option"
  r_address :: "string option"

record trace_item =
  t_action :: "trace_action option"
  t_result :: "trace_result option"
  t_type :: "string option"
  t_traceAddress :: "int list option"

text \<open>\<open>d.get(key, default)\<close> on a key that may be missing.\<close>
definition get_or :: "'a option \<Rightarrow> 'a \<Rightarrow> 'a" where
  "get_or v d = (case v of None \<Rightarrow> d | Some x \<Rightarrow> x)"

text \<open>\<open>obj.get(outer, {}).get(inner, default)\<close>\<close>
definition get2 :: "'r option \<Rightarrow> ('r \<Rightarrow> 'a option) \<Rightarrow> 'a \<Rightarrow> 'a" where
  "get2 obj field d = (case obj of None \<Rightarrow> d | Some r \<Rightarrow> get_or (field r) d)"

subsection \<open>The outside world and the state of a parser\<close>

text \<open>
  What one call of \<open>_make_etherscan_request\<close> and the reading of its first result give:
  nothing usable (no data, an empty result, or an exception on the way), or the three
  fields \<open>ContractName\<close>, \<open>SourceCode\<close> and \<open>ABI\<close>.
\<close>
datatype etherscan_reply = NoResult | SourceResult string string string

text \<open>
  The collaborators of the parser. \<open>fetch n chain_id address\<close> is the answer to the
  \<open>n\<close>-th request of the run, so the provider may answer the same question differently
  over time. \<open>json_loads\<close> parses the ABI text and is \<open>None\<close> where parsing (or
  reading the parsed value as a list of entries) raises. \<open>save_fails\<close> tells whether
  writing the source file raises. \<open>abi_decode\<close> is \<open>eth_abi.decode\<close>, \<open>None\<close> where it
  raises. \<open>float_repr w\<close> is the text of the float \<open>w / 10 ** 18\<close>.
\<close>
record world =
  fetch :: "nat \<Rightarrow> int \<Rightarrow> string \<Rightarrow> etherscan_reply"
  json_loads :: "string \<Rightarrow> abi_item list option"
  save_fails :: "string \<Rightarrow> string \<Rightarrow> bool"
  abi_decode :: "string list \<Rightarrow> string \<Rightarrow> pyval list option"
  float_repr :: "int \<Rightarrow> string"

text \<open>
  The state of an \<open>EVMTraceParser\<close>: the contract cache, where a key may be present with
  the value \<open>None\<close>, and the log of the requests made to the provider (chain id and
  address of each call of \<open>_make_etherscan_request\<close>).
\<close>
record parser_state =
  contract_cache :: "string \<rightharpoonup> ContractInfo option"
  requests :: "(int \<times> string) list"

definition chain_ids :: "string \<Rightarrow> int" where
  "chain_ids chain =
     (if chain = ''ETH'' then 1 else if chain = ''BSC'' then 56
      else if chain = ''POLYGON'' then 137 else 1)"

section \<open>The parser\<close>

subsection \<open>\<open>parse_abi\<close>\<close>

definition signature_string :: "string \<Rightarrow> string list \<Rightarrow> string" where
  "signature_string name input_types = name @ ''('' @ py_join '','' input_types @ '')''"

definition signature :: "string \<Rightarrow> string list \<Rightarrow> string" where
  "signature name input_types = ''0x'' @ take 8 (bytes_hex (keccak (signature_string name input_types)))"

definition function_info_of :: "abi_item \<Rightarrow> FunctionInfo" where
  "function_info_of item =
     (let name = get_or (i_name item) '''';
          inputs = get_or (i_inputs item) [];
          outputs = get_or (i_outputs item) [];
          input_types = map (\<lambda>inp. get_or (p_type inp) '''') inputs;
          input_names = map (\<lambda>inp. get_or (p_name inp) '''') inputs;
          output_types = map (\<lambda>out. get_or (p_type out) '''') outputs;
          output_names = map (\<lambda>out. get_or (p_name out) '''') outputs
      in \<lparr>fi_name = name, fi_signature = signature name input_types,
          fi_input_types = input_types, fi_output_types = output_types,
          fi_input_names = input_names, fi_output_names = output_names\<rparr>)"

definition parse_abi_step :: "(string \<rightharpoonup> FunctionInfo) \<Rightarrow> abi_item \<Rightarrow> (string \<rightharpoonup> FunctionInfo)" where
  "parse_abi_step functions item =
     (if i_type item = Some ''function''
      then functions(fi_signature (function_info_of item) \<mapsto> function_info_of item)
      else functions)"

definition parse_abi :: "abi_item list \<Rightarrow> (string \<rightharpoonup> FunctionInfo)" where
  "parse_abi abi = foldl parse_abi_step Map.empty abi"

subsection \<open>\<open>get_contract_info\<close>\<close>

definition abi_functions :: "world \<Rightarrow> string \<Rightarrow> (string \<rightharpoonup> FunctionInfo)" where
  "abi_functions w abi_str =
     (if abi_str \<noteq> '''' \<and> abi_str \<noteq> ''Contract source code not verified''
      then (case json_loads w abi_str of None \<Rightarrow> Map.empty | Some abi \<Rightarrow> parse_abi abi)
      else Map.empty)"

definition get_contract_info ::
  "world \<Rightarrow> parser_state \<Rightarrow> string \<Rightarrow> string \<Rightarrow> ContractInfo option \<times> parser_state" where
  "get_contract_info w st address0 chain =
     (let address = py_lower address0
      in case contract_cache st address of
           Some cached \<Rightarrow> (cached, st)
         | None \<Rightarrow>
             if \<not> startswith address ''0x'' \<or> length address \<noteq> 42 then (None, st)
             else
               (let chain_id = chain_ids chain;
                    st1 = st\<lparr>requests := requests st @ [(chain_id, address)]\<rparr>
                in case fetch w (length (requests st)) chain_id address of
                     NoResult \<Rightarrow> (None, st1)
                   | SourceResult contract_name source_code abi_str \<Rightarrow>
                       if contract_name = ''''
                       then (None, st1\<lparr>contract_cache := (contract_cache st1)(address \<mapsto> None)\<rparr>)
                       else if source_code \<noteq> '''' \<and> save_fails w contract_name source_code
                       then (None, st1)
                       else
                         (let contract_info =
                                \<lparr>ci_address = address, ci_name = contract_name,
                                 ci_functions = abi_functions w abi_str, ci_abi = abi_str\<rparr>
                          in (Some contract_info,
                              st1\<lparr>contract_cache := (contract_cache st1)(address \<mapsto> Some contract_info)\<rparr>))))"

subsection \<open>Names and selectors\<close>

definition get_function_signature :: "string \<Rightarrow> string" where
  "get_function_signature input_data =
     (if input_data = '''' \<or> input_data = ''0x'' then ''<empty>''
      else if length input_data \<ge> 10 then take 10 input_data
      else input_data)"

definition get_contract_name :: "world \<Rightarrow> parser_state \<Rightarrow> string \<Rightarrow> string \<Rightarrow> string \<times> parser_state" where
  "get_contract_name w st address chain =
     (case get_contract_info w st address chain of
        (Some contract_info, st') \<Rightarrow> (ci_name contract_info, st')
      | (None, st') \<Rightarrow> (address, st'))"

definition get_function_name ::
  "world \<Rightarrow> parser_state \<Rightarrow> string \<Rightarrow> string \<Rightarrow> string \<Rightarrow> string \<times> parser_state" where
  "get_function_name w st address input_data chain =
     (let sig = get_function_signature input_data
      in if sig = ''<empty>'' then (''<empty>'', st)
         else (case get_contract_info w st address chain of
                 (Some contract_info, st') \<Rightarrow>
                   (case ci_functions contract_info sig of
                      Some f \<Rightarrow> (fi_name f, st')
                    | None \<Rightarrow> (sig, st'))
               | (None, st') \<Rightarrow> (sig, st')))"

subsection \<open>Decoding\<close>

text \<open>
  The loop over \<open>enumerate(zip(types, names, decoded))\<close>: it stops with the shortest of
  the three, and an empty name becomes the prefix followed by the position.
\<close>
fun name_params :: "string \<Rightarrow> nat \<Rightarrow> string list \<Rightarrow> string list \<Rightarrow> pyval list \<Rightarrow> (string \<times> string \<times> pyval) list" where
  "name_params pre i (t # ts) (n # ns) (v # vs) =
     ((if n = '''' then pre @ str_nat i else n), t, v) # name_params pre (Suc i) ts ns vs"
| "name_params pre i _ _ _ = []"

text \<open>
  In both decoders everything after the lookup of the function runs inside
  \<open>try ... except Exception\<close>, whose handler returns the empty list: the two places that
  can raise, \<open>bytes.fromhex\<close> and \<open>decode\<close>, are the \<open>None\<close> branches below.
\<close>
definition decode_input_data ::
  "world \<Rightarrow> parser_state \<Rightarrow> string \<Rightarrow> string \<Rightarrow> string \<Rightarrow> (string \<times> string \<times> pyval) list \<times> parser_state" where
  "decode_input_data w st address input_data chain =
     (if input_data = '''' \<or> input_data = ''0x'' then ([], st)
      else
        (let sig = get_function_signature input_data
         in case get_contract_info w st address chain of
              (None, st') \<Rightarrow> ([], st')
            | (Some contract_info, st') \<Rightarrow>
                (case ci_functions contract_info sig of
                   None \<Rightarrow> ([], st')
                 | Some finfo \<Rightarrow>
                     (let param_data = drop 10 input_data
                      in if param_data = '''' \<or> fi_input_types finfo = [] then ([], st')
                         else (case bytes_fromhex param_data of
                                 None \<Rightarrow> ([], st')
                               | Some data \<Rightarrow>
                                   (case abi_decode w (fi_input_types finfo) data of
                                      None \<Rightarrow> ([], st')
                                    | Some decoded \<Rightarrow>
                                        (name_params ''param'' 0 (fi_input_types finfo)
                                           (fi_input_names finfo) decoded, st')))))))"

definition decode_output_data ::
  "world \<Rightarrow> parser_state \<Rightarrow> string \<Rightarrow> string \<Rightarrow> string \<Rightarrow> string \<Rightarrow> (string \<times> string \<times> pyval) list \<times> parser_state" where
  "decode_output_data w st address input_data output_data chain =
     (if output_data = '''' \<or> output_data = ''0x'' then ([], st)
      else
        (let sig = get_function_signature input_data
         in case get_contract_info w st address chain of
              (None, st') \<Rightarrow> ([], st')
            | (Some contract_info, st') \<Rightarrow>
                (case ci_functions contract_info sig of
                   None \<Rightarrow> ([], st')
                 | Some finfo \<Rightarrow>
                     if fi_output_types finfo = [] then ([], st')
                     else (case bytes_fromhex (drop 2 output_data) of
                             None \<Rightarrow> ([], st')
                           | Some data \<Rightarrow>
                               (case abi_decode w (fi_output_types finfo) data of
                                  None \<Rightarrow> ([], st')
                                | Some decoded \<Rightarrow>
                                    (name_params ''output'' 0 (fi_output_types finfo)
                                       (fi_output_names finfo) decoded, st'))))))"

subsection \<open>Formatting values\<close>

text \<open>
  \<open>format_value\<close> dispatches on the type tag, in the order of the source. Only the
  address branch can raise: \<open>to_checksum_address\<close> rejects a text that is not an
  address. A boolean is an instance of \<open>int\<close>, so the integer branch formats it as
  \<open>1\<close> or \<open>0\<close>.
\<close>
fun format_value :: "world \<Rightarrow> parser_state \<Rightarrow> pyval \<Rightarrow> string \<Rightarrow> string \<Rightarrow> error + (string \<times> parser_state)"
  and format_elements :: "world \<Rightarrow> parser_state \<Rightarrow> pyval list \<Rightarrow> string \<Rightarrow> string \<Rightarrow> error + (string list \<times> parser_state)" where
  "format_value w st v value_type chain =
     (if value_type = ''address'' then
        (case v of
           VStr s \<Rightarrow>
             (case to_checksum_address s of
                None \<Rightarrow> Inl ValueError
              | Some addr_str \<Rightarrow> Inr (get_contract_name w st addr_str chain))
         | _ \<Rightarrow> Inr (get_contract_name w st (py_str v) chain))
      else if startswith value_type ''uint'' \<or> startswith value_type ''int'' then
        (case v of
           VInt n \<Rightarrow> Inr (format_commas n, st)
         | VBool b \<Rightarrow> Inr (format_commas (if b then 1 else 0), st)
         | _ \<Rightarrow> Inr (py_str v, st))
      else if value_type = ''bool'' then Inr (py_lower (py_str v), st)
      else if startswith value_type ''bytes'' then
        (case v of
           VBytes bs \<Rightarrow> Inr (''0x'' @ bytes_hex bs, st)
         | _ \<Rightarrow> Inr (py_str v, st))
      else if endswith value_type ''[]'' then
        (case v of
           VList vs \<Rightarrow>
             (case format_elements w st vs (take (length value_type - 2) value_type) chain of
                Inl e \<Rightarrow> Inl e
              | Inr (formatted_elements, st') \<Rightarrow>
                  Inr (''['' @ py_join '', '' formatted_elements @ '']'', st'))
         | VTuple vs \<Rightarrow>
             (case format_elements w st vs (take (length value_type - 2) value_type) chain of
                Inl e \<Rightarrow> Inl e
              | Inr (formatted_elements, st') \<Rightarrow>
                  Inr (''['' @ py_join '', '' formatted_elements @ '']'', st'))
         | _ \<Rightarrow> Inr (py_str v, st))
      else Inr (py_str v, st))"
| "format_elements w st [] element_type chain = Inr ([], st)"
| "format_elements w st (elem # rest) element_type chain =
     (case format_value w st elem element_type chain of
        Inl e \<Rightarrow> Inl e
      | Inr (s, st') \<Rightarrow>
          (case format_elements w st' rest element_type chain of
             Inl e \<Rightarrow> Inl e
           | Inr (ss, st'') \<Rightarrow> Inr (s # ss, st'')))"

fun format_params_loop ::
  "world \<Rightarrow> parser_state \<Rightarrow> (string \<times> string \<times> pyval) list \<Rightarrow> string \<Rightarrow> error + (string list \<times> parser_state)" where
  "format_params_loop w st [] chain = Inr ([], st)"
| "format_params_loop w st ((param_name, param_type, param_value) # rest) chain =
     (case format_value w st param_value param_type chain of
        Inl e \<Rightarrow> Inl e
      | Inr (formatted_value, st') \<Rightarrow>
          (case format_params_loop w st' rest chain of
             Inl e \<Rightarrow> Inl e
           | Inr (formatted_params, st'') \<Rightarrow>
               Inr ((param_name @ ''='' @ formatted_value) # formatted_params, st'')))"

definition format_parameters ::
  "world \<Rightarrow> parser_state \<Rightarrow> (string \<times> string \<times> pyval) list \<Rightarrow> string \<Rightarrow> error + (string \<times> parser_state)" where
  "format_parameters w st params chain =
     (if params = [] then Inr ('''', st)
      else (case format_params_loop w st params chain of
              Inl e \<Rightarrow> Inl e
            | Inr (formatted_params, st') \<Rightarrow> Inr (py_join '', '' formatted_params, st')))"

subsection \<open>Wei to ether\<close>

text \<open>
  \<open>wei_to_ether\<close> returns the float \<open>wei_int / 10 ** 18\<close>. The model keeps the float as
  its integer numerator \<open>wei_int\<close>: the division is correctly rounded and \<open>1 / 10 ** 18\<close>
  is a normal double, so the float is positive exactly when \<open>wei_int\<close> is. The division
  raises \<open>OverflowError\<close> when the quotient rounds to \<open>2 ** 1024\<close> or beyond, which is from
  \<open>2 ** 1024 - 2 ** 970\<close> on.
\<close>
definition float_overflows :: "int \<Rightarrow> bool" where
  "float_overflows wei_int = (2 ^ 1024 - 2 ^ 970 \<le> \<bar>wei_int\<bar> div 10 ^ 18)"

definition wei_to_ether :: "string \<Rightarrow> error + int" where
  "wei_to_ether wei_value =
     (case (if startswith wei_value ''0x'' then py_int 16 wei_value else py_int 10 wei_value) of
        None \<Rightarrow> Inl ValueError
      | Some wei_int \<Rightarrow> if float_overflows wei_int then Inl OverflowError else Inr wei_int)"

text \<open>
  The text of the float in an f-string. A whole number of ether below \<open>2 ** 53\<close> is a
  float without rounding and is written with \<open>.0\<close>; every other quotient is left to
  the world's \<open>float_repr\<close>.
\<close>
definition float_str :: "world \<Rightarrow> int \<Rightarrow> string" where
  "float_str w wei_int =
     (if wei_int mod 10 ^ 18 = 0 \<and> \<bar>wei_int div 10 ^ 18\<bar> < 2 ^ 53
      then str_int (wei_int div 10 ^ 18) @ ''.0''
      else float_repr w wei_int)"

text \<open>The value annotation of \<open>format_trace_item\<close> (\<open>value_str\<close> in the source).\<close>
definition value_str :: "world \<Rightarrow> string \<Rightarrow> error + string" where
  "value_str w v =
     (if v \<noteq> ''0x0'' \<and> v \<noteq> ''0'' then
        (case wei_to_ether v of
           Inl e \<Rightarrow> Inl e
         | Inr ether_value \<Rightarrow>
             if ether_value > 0 then Inr (''[value: '' @ float_str w ether_value @ '' Ether] '')
             else Inr '''')
      else Inr '''')"

subsection \<open>\<open>format_trace_item\<close> and \<open>parse_trace\<close>\<close>

definition is_create :: "trace_item \<Rightarrow> bool" where
  "is_create item = (t_type item = Some ''create'')"

text \<open>The label of a record (\<open>call_type\<close> in the source) and the address it targets.\<close>
definition call_type :: "trace_item \<Rightarrow> string" where
  "call_type item =
     (if is_create item then ''CREATE'' else py_upper (get2 (t_action item) a_callType ''''))"

definition to_address :: "trace_item \<Rightarrow> string" where
  "to_address item =
     (if is_create item then get2 (t_result item) r_address '''' else get2 (t_action item) a_to '''')"

definition level_str :: "nat \<Rightarrow> string" where
  "level_str level = concat (replicate level ''  '')"

text \<open>The head of a rendered line: indentation, depth and label.\<close>
definition line_head :: "nat \<Rightarrow> string \<Rightarrow> string" where
  "line_head level label = level_str level @ str_nat level @ '' ['' @ label @ ''] ''"

text \<open>
  The part of \<open>format_trace_item\<close> after the value annotation: the names, the decoded
  and formatted parameters, and the text \<open>function_call\<close> followed by \<open>output_part\<close>.
\<close>
definition call_text :: "world \<Rightarrow> parser_state \<Rightarrow> trace_item \<Rightarrow> string \<Rightarrow> error + (string \<times> parser_state)" where
  "call_text w st item chain =
     (let input_data = get2 (t_action item) a_input '''';
          output_data = get2 (t_result item) r_output '''';
          (contract_name, st1) = get_contract_name w st (to_address item) chain;
          (function_name, st2) = get_function_name w st1 (to_address item) input_data chain;
          (input_params, st3) = decode_input_data w st2 (to_address item) input_data chain;
          (output_params, st4) = decode_output_data w st3 (to_address item) input_data output_data chain
      in case format_parameters w st4 input_params chain of
           Inl e \<Rightarrow> Inl e
         | Inr (input_str, st5) \<Rightarrow>
             (case format_parameters w st5 output_params chain of
                Inl e \<Rightarrow> Inl e
              | Inr (output_str, st6) \<Rightarrow>
                  Inr (contract_name @ ''.'' @ function_name @ ''('' @ input_str @ '')''
                       @ (if output_str \<noteq> '''' then '' => ('' @ output_str @ '')'' else '' => ()''), st6)))"

definition format_trace_item ::
  "world \<Rightarrow> parser_state \<Rightarrow> trace_item \<Rightarrow> nat \<Rightarrow> string \<Rightarrow> bool \<Rightarrow> error + (string option \<times> parser_state)" where
  "format_trace_item w st item level chain include_static_call =
     (if \<not> include_static_call \<and> call_type item = ''STATICCALL'' then Inr (None, st)
      else
        (case value_str w (get2 (t_action item) a_value ''0x0'') of
           Inl e \<Rightarrow> Inl e
         | Inr vstr \<Rightarrow>
             (case call_text w st item chain of
                Inl e \<Rightarrow> Inl e
              | Inr (call, st') \<Rightarrow> Inr (Some (line_head level (call_type item) @ vstr @ call), st'))))"

text \<open>The line for the sender, added before the first record only.\<close>
definition sender_lines :: "world \<Rightarrow> parser_state \<Rightarrow> trace_item \<Rightarrow> string \<Rightarrow> string list \<times> parser_state" where
  "sender_lines w st item chain =
     (let from_address = get2 (t_action item) a_from ''''
      in if from_address \<noteq> ''''
         then (case get_contract_name w st from_address chain of
                 (sender_name, st') \<Rightarrow> ([''[Sender] '' @ sender_name], st'))
         else ([], st))"

definition level_of :: "trace_item \<Rightarrow> nat" where
  "level_of item = length (get_or (t_traceAddress item) [])"

text \<open>The loop of \<open>parse_trace\<close> over \<open>enumerate(result)\<close>, from position \<open>i\<close> on.\<close>
fun trace_loop ::
  "world \<Rightarrow> string \<Rightarrow> bool \<Rightarrow> nat \<Rightarrow> parser_state \<Rightarrow> trace_item list \<Rightarrow> error + (string list \<times> parser_state)" where
  "trace_loop w chain include_static_call i st [] = Inr ([], st)"
| "trace_loop w chain include_static_call i st (item # rest) =
     (case (if i = 0 then sender_lines w st item chain else ([], st)) of
        (sender, st1) \<Rightarrow>
          (case format_trace_item w st1 item (level_of item) chain include_static_call of
             Inl e \<Rightarrow> Inl e
           | Inr (formatted_line, st2) \<Rightarrow>
               (case trace_loop w chain include_static_call (Suc i) st2 rest of
                  Inl e \<Rightarrow> Inl e
                | Inr (ls, st3) \<Rightarrow>
                    Inr (sender @ (case formatted_line of None \<Rightarrow> [] | Some l \<Rightarrow> [l]) @ ls, st3))))"

text \<open>The message for a trace without records, in UTF-8.\<close>
definition no_trace_data :: string where
  "no_trace_data =
     [CHR 0xE6, CHR 0xB2, CHR 0xA1, CHR 0xE6, CHR 0x9C, CHR 0x89, CHR 0xE6, CHR 0x89, CHR 0xBE,
      CHR 0xE5, CHR 0x88, CHR 0xB0] @ '' trace '' @ [CHR 0xE6, CHR 0x95, CHR 0xB0, CHR 0xE6, CHR 0x8D, CHR 0xAE]"

text \<open>\<open>parse_trace\<close>, given the list under the key \<open>result\<close> (empty when the key is missing).\<close>
definition parse_trace ::
  "world \<Rightarrow> parser_state \<Rightarrow> trace_item list \<Rightarrow> string \<Rightarrow> bool \<Rightarrow> error + (string list \<times> parser_state)" where
  "parse_trace w st result chain include_static_call =
     (if result = [] then Inr ([no_trace_data], st)
      else trace_loop w chain include_static_call 0 st result)"

subsection \<open>Worlds and records used as examples\<close>

definition init_state :: parser_state where
  "init_state = \<lparr>contract_cache = Map.empty, requests = []\<rparr>"

text \<open>A provider that never answers, and one that knows every address as unverified.\<close>
definition offline_world :: world where
  "offline_world =
     \<lparr>fetch = (\<lambda>n chain_id address. NoResult), json_loads = (\<lambda>s. None),
      save_fails = (\<lambda>name src. False), abi_decode = (\<lambda>types data. None),
      float_repr = (\<lambda>wei_int. ''?'')\<rparr>"

definition unverified_world :: world where
  "unverified_world = offline_world\<lparr>fetch := (\<lambda>n chain_id address. SourceResult '''' '''' '''')\<rparr>"

definition call_item :: "string \<Rightarrow> string \<Rightarrow> string \<Rightarrow> string \<Rightarrow> string \<Rightarrow> int list \<Rightarrow> trace_item" where
  "call_item ct frm to v inp path =
     \<lparr>t_action = Some \<lparr>a_callType = Some ct, a_from = Some frm, a_to = Some to,
                        a_value = Some v, a_input = Some inp\<rparr>,
      t_result = Some \<lparr>r_output = Some ''0x'', r_address = None\<rparr>,
      t_type = Some ''call'', t_traceAddress = Some path\<rparr>"


section \<open>Notions used in the statements\<close>

text \<open>How often the provider was asked about an address, and a run of lookups.\<close>
definition provider_calls :: "parser_state \<Rightarrow> string \<Rightarrow> nat" where
  "provider_calls st address = length (filter (\<lambda>r. snd r = address) (requests st))"

fun lookups :: "world \<Rightarrow> parser_state \<Rightarrow> (string \<times> string) list \<Rightarrow> parser_state" where
  "lookups w st [] = st"
| "lookups w st ((address, chain) # later) = lookups w (snd (get_contract_info w st address chain)) later"

text \<open>
  The request that a lookup of the address would make in this state is answered with a
  contract name field, empty or not, and saving the source does not fail.
\<close>
definition definite_reply :: "world \<Rightarrow> parser_state \<Rightarrow> string \<Rightarrow> string \<Rightarrow> bool" where
  "definite_reply w st address chain =
     (case fetch w (length (requests st)) (chain_ids chain) (py_lower address) of
        NoResult \<Rightarrow> False
      | SourceResult contract_name source_code abi_str \<Rightarrow>
          contract_name = '''' \<or> source_code = '''' \<or> \<not> save_fails w contract_name source_code)"

text \<open>The entries of an ABI that are functions with the given selector.\<close>
definition functions_with :: "string \<Rightarrow> abi_item list \<Rightarrow> abi_item list" where
  "functions_with sel abi =
     filter (\<lambda>item. i_type item = Some ''function'' \<and> fi_signature (function_info_of item) = sel) abi"

text \<open>The records whose line is emitted, and what a line says about its record.\<close>
definition emitted :: "bool \<Rightarrow> trace_item \<Rightarrow> bool" where
  "emitted include_static_call item = (include_static_call \<or> call_type item \<noteq> ''STATICCALL'')"

definition line_of :: "trace_item \<Rightarrow> string \<Rightarrow> bool" where
  "line_of item l = startswith l (line_head (level_of item) (call_type item))"

text \<open>The number of sender lines at the start of the output for a trace.\<close>
definition sender_count :: "trace_item list \<Rightarrow> nat" where
  "sender_count result =
     (case result of [] \<Rightarrow> 0 | item # rest \<Rightarrow> if get2 (t_action item) a_from '''' \<noteq> '''' then 1 else 0)"

text \<open>The value field of a record read as the claim words it: hexadecimal after \<open>0x\<close>, decimal otherwise.\<close>
definition item_wei :: "trace_item \<Rightarrow> int option" where
  "item_wei item =
     (let v = get2 (t_action item) a_value ''0x0''
      in if startswith v ''0x'' then py_int 16 v else py_int 10 v)"



text \<open>
  An address is settled in a state when a lookup of it makes no request: it is in the
  cache, or it is not of the form that is looked up at all.
\<close>
definition settled :: "parser_state \<Rightarrow> string \<Rightarrow> bool" where
  "settled st a = (contract_cache st a \<noteq> None \<or> \<not> startswith a ''0x'' \<or> length a \<noteq> 42)"

text \<open>An address and a trace of three records, for the examples.\<close>
definition address_a :: string where
  "address_a = ''0x5aaeb6053f3e94c9b9a09f33669435e7ef1beaed''"

definition example_trace :: "trace_item list" where
  "example_trace =
     [call_item ''call'' address_a address_a ''0xde0b6b3a7640000'' ''0x'' [],
      call_item ''staticcall'' address_a address_a ''0x0'' ''0x70a08231'' [0],
      call_item ''delegatecall'' address_a address_a ''0'' ''0x12345678abcd'' [0, 2]]"











text \<open>
  The state changes only through lookups: \<open>st'\<close> is reached from \<open>st\<close> by a run of them.
\<close>
definition by_lookups :: "world \<Rightarrow> parser_state \<Rightarrow> parser_state \<Rightarrow> bool" where
  "by_lookups w st st' = (\<exists>calls. st' = lookups w st calls)"

text \<open>A provider that answers every request with a contract name field, and a source that can be saved.\<close>
definition always_definite :: "world \<Rightarrow> bool" where
  "always_definite w =
     (\<forall>n chain_id address.
        case fetch w n chain_id address of
          NoResult \<Rightarrow> False
        | SourceResult contract_name source_code abi_str \<Rightarrow>
            contract_name = '''' \<or> source_code = '''' \<or> \<not> save_fails w contract_name source_code)"

text \<open>Every address was requested at most once, and each requested address is in the cache.\<close>
definition fetched_once :: "parser_state \<Rightarrow> bool" where
  "fetched_once st =
     (\<forall>a. provider_calls st a = 0 \<or> (provider_calls st a = 1 \<and> contract_cache st a \<noteq> None))"


text \<open>The shape of a Keccak state: 25 lanes of 64 bits, in 5 rows of 5.\<close>
definition lanes64 :: "lane list \<Rightarrow> bool" where
  "lanes64 a = list_all (\<lambda>l. length l = 64) a"


definition rows_ok :: "lane list list \<Rightarrow> bool" where
  "rows_ok rs = list_all (\<lambda>r. length r = 5 \<and> lanes64 r) rs"

section \<open>The signature resolver\<close>

lemma parse_abi_snoc: "parse_abi (abi @ [item]) = parse_abi_step (parse_abi abi) item"
  by (simp add: parse_abi_def)

lemma parse_abi_lookup:
  "parse_abi abi sel =
     (case functions_with sel abi of [] \<Rightarrow> None | x # xs \<Rightarrow> Some (function_info_of (last (x # xs))))"
proof (induction abi rule: rev_induct)
  case Nil
  show ?case by (simp add: parse_abi_def functions_with_def)
next
  case (snoc item abi)
  show ?case
    using snoc.IH
    by (auto simp: parse_abi_snoc parse_abi_step_def functions_with_def split: list.splits)
qed

lemma fi_signature_function_info_of:
  "fi_signature (function_info_of item) =
     signature (get_or (i_name item) '''') (map (\<lambda>inp. get_or (p_type inp) '''') (get_or (i_inputs item) []))"
  by (simp add: function_info_of_def Let_def)

lemma transfer_selector: "signature ''transfer'' [''address'', ''uint256''] = ''0xa9059cbb''"
  by code_simp

text \<open>
  The checksum of the first test address of EIP-55, as a check of the model of
  \<open>to_checksum_address\<close>.
\<close>
lemma checksum_address_eip55:
  "to_checksum_address ''0x5aaeb6053f3e94c9b9a09f33669435e7ef1beaed''
     = Some ''0x5aAeb6053F3E94C9b9A09f33669435E7Ef1BeAed''"
  by code_simp

text \<open>
  The digest has 32 bytes, whatever the message: the state keeps its shape through the
  permutation and the padded message is a whole number of blocks. So every selector has
  ten characters.
\<close>
lemma lanes64_simps [simp]:
  "lanes64 []"
  "lanes64 (l # a) = (length l = 64 \<and> lanes64 a)"
  "lanes64 (a @ b) = (lanes64 a \<and> lanes64 b)"
  by (simp_all add: lanes64_def)







lemma length_xor_lane [simp]: "length (xor_lane a b) = min (length a) (length b)"
  by (induction a b rule: xor_lane.induct) simp_all

lemma length_chi_lane [simp]: "length (chi_lane a b c) = min (length a) (min (length b) (length c))"
  by (induction a b c rule: chi_lane.induct) simp_all

lemma length_rotl [simp]: "length (rotl n w) = length w"
  by (simp add: rotl_def)

lemma length_bits_of_int [simp]: "length (bits_of_int n k) = n"
  by (induction n k rule: bits_of_int.induct) simp_all

lemma length_bits_of_char [simp]: "length (bits_of_char c) = 8"
  by (cases c) simp

lemma length_xor_row [simp]: "length (xor_row a b) = min (length a) (length b)"
  by (induction a b rule: xor_row.induct) simp_all



lemma rows_ok_simps [simp]:
  "rows_ok []"
  "rows_ok (r # rs) = (length r = 5 \<and> lanes64 r \<and> rows_ok rs)"
  by (simp_all add: rows_ok_def)


lemma length_rows [simp]: "length (rows a) = 5"
  by (simp add: rows_def)























lemma length_hex_of_byte [simp]: "length (hex_of_byte c) = 2"
  by (cases c) simp





text \<open>
  Claim C2. \<open>parse_abi\<close> maps a selector to the description of the last entry of type
  \<open>function\<close> that has this selector, and to nothing when there is none: entries of other
  types are ignored and a later entry with the same selector replaces an earlier one.
  The selector of an entry is \<open>0x\<close> followed by the first 8 hexadecimal digits of the
  Keccak-256 digest of \<open>name(type1,type2,...)\<close>, built from the name and the input type
  strings only; it is a function of the entry alone, and for
  \<open>transfer(address,uint256)\<close> it is \<open>0xa9059cbb\<close>.
\<close>
theorem parse_abi_selectors:
  "parse_abi abi sel =
     (case functions_with sel abi of [] \<Rightarrow> None | x # xs \<Rightarrow> Some (function_info_of (last (x # xs))))
   \<and> fi_signature (function_info_of item) =
       ''0x'' @ take 8 (bytes_hex (keccak (get_or (i_name item) '''' @ ''(''
          @ py_join '','' (map (\<lambda>inp. get_or (p_type inp) '''') (get_or (i_inputs item) [])) @ '')'')))
   \<and> signature ''transfer'' [''address'', ''uint256''] = ''0xa9059cbb''"
  using parse_abi_lookup [of abi sel] fi_signature_function_info_of [of item] transfer_selector
  by (simp add: signature_def signature_string_def)

section \<open>Empty call data\<close>

text \<open>
  Claim C5. For every address and chain, when the input data is missing (the empty
  string) or exactly \<open>0x\<close>, \<open>get_function_signature\<close> and \<open>get_function_name\<close> return
  \<open><empty>\<close> and \<open>decode_input_data\<close> returns the empty list; nothing is raised and the
  parser's state is left as it was.
\<close>
theorem empty_input_data:
  "get_function_signature '''' = ''<empty>'' \<and> get_function_signature ''0x'' = ''<empty>''
   \<and> get_function_name w st address '''' chain = (''<empty>'', st)
   \<and> get_function_name w st address ''0x'' chain = (''<empty>'', st)
   \<and> decode_input_data w st address '''' chain = ([], st)
   \<and> decode_input_data w st address ''0x'' chain = ([], st)"
  by (simp add: get_function_signature_def get_function_name_def decode_input_data_def)


section \<open>The metadata cache\<close>

lemma get_contract_info_cached:
  "contract_cache st (py_lower address) = Some c \<Longrightarrow> get_contract_info w st address chain = (c, st)"
  by (simp add: get_contract_info_def)

lemma get_contract_info_malformed:
  "contract_cache st (py_lower address) = None \<Longrightarrow>
   \<not> startswith (py_lower address) ''0x'' \<or> length (py_lower address) \<noteq> 42 \<Longrightarrow>
   get_contract_info w st address chain = (None, st)"
  by (auto simp add: get_contract_info_def)

lemma get_contract_info_settled_same:
  "settled st (py_lower address) \<Longrightarrow> snd (get_contract_info w st address chain) = st"
  by (cases "contract_cache st (py_lower address)")
     (auto simp: settled_def get_contract_info_cached get_contract_info_malformed)

lemma get_contract_info_requests:
  "requests (snd (get_contract_info w st x c)) = requests st
   \<or> requests (snd (get_contract_info w st x c)) = requests st @ [(chain_ids c, py_lower x)]"
  by (auto simp: get_contract_info_def Let_def split: option.splits etherscan_reply.splits)

lemma get_contract_info_cache_grows:
  "contract_cache st a \<noteq> None \<Longrightarrow> contract_cache (snd (get_contract_info w st x c)) a \<noteq> None"
  by (auto simp: get_contract_info_def Let_def split: option.splits etherscan_reply.splits)

lemma settled_step:
  assumes "settled st a"
  shows "settled (snd (get_contract_info w st x c)) a"
    and "provider_calls (snd (get_contract_info w st x c)) a = provider_calls st a"
proof -
  show "settled (snd (get_contract_info w st x c)) a"
    using assms get_contract_info_cache_grows [of st a w x c] by (auto simp: settled_def)
  show "provider_calls (snd (get_contract_info w st x c)) a = provider_calls st a"
  proof (cases "py_lower x = a")
    case True
    then show ?thesis using assms get_contract_info_settled_same [of st x w c] by simp
  next
    case False
    then show ?thesis
      using get_contract_info_requests [of w st x c] by (auto simp: provider_calls_def)
  qed
qed

lemma settled_lookups:
  "settled st a \<Longrightarrow>
   settled (lookups w st later) a \<and> provider_calls (lookups w st later) a = provider_calls st a"
proof (induction later arbitrary: st)
  case Nil
  then show ?case by simp
next
  case (Cons p later)
  obtain x c where p: "p = (x, c)" by (cases p)
  from Cons.prems have s: "settled (snd (get_contract_info w st x c)) a"
    and n: "provider_calls (snd (get_contract_info w st x c)) a = provider_calls st a"
    by (rule settled_step)+
  from Cons.IH [OF s] n show ?case by (simp add: p)
qed

lemma definite_reply_settles:
  assumes "definite_reply w st address chain"
  shows "settled (snd (get_contract_info w st address chain)) (py_lower address)"
  using assms
  by (auto simp: definite_reply_def settled_def get_contract_info_def Let_def
           split: option.splits etherscan_reply.splits)

lemma get_contract_info_one_request:
  "provider_calls (snd (get_contract_info w st x c)) a \<le> provider_calls st a + 1"
  using get_contract_info_requests [of w st x c] by (auto simp: provider_calls_def)

subsection \<open>Every operation changes the state by lookups only\<close>

lemma lookups_append: "lookups w st (a @ b) = lookups w (lookups w st a) b"
  by (induction a arbitrary: st) auto

lemma by_lookups_refl [simp]: "by_lookups w st st"
  unfolding by_lookups_def by (rule exI [of _ "[]"]) simp

lemma by_lookups_trans: "by_lookups w st st1 \<Longrightarrow> by_lookups w st1 st2 \<Longrightarrow> by_lookups w st st2"
  unfolding by_lookups_def using lookups_append by metis

lemma by_lookups_step: "by_lookups w st (snd (get_contract_info w st address chain))"
  unfolding by_lookups_def by (rule exI [of _ "[(address, chain)]"]) simp

lemma get_contract_info_by_lookups:
  "get_contract_info w st address chain = (r, st') \<Longrightarrow> by_lookups w st st'"
  using by_lookups_step [of w st address chain] by simp

lemma get_contract_name_by_lookups: "by_lookups w st (snd (get_contract_name w st address chain))"
  by (auto simp: get_contract_name_def split: prod.splits option.splits
           intro: get_contract_info_by_lookups)

lemma get_function_name_by_lookups:
  "by_lookups w st (snd (get_function_name w st address input_data chain))"
  by (auto simp: get_function_name_def Let_def split: prod.splits option.splits
           intro: get_contract_info_by_lookups)

lemma decode_input_data_by_lookups:
  "by_lookups w st (snd (decode_input_data w st address input_data chain))"
  by (auto simp: decode_input_data_def Let_def split: prod.splits option.splits
           intro: get_contract_info_by_lookups)

lemma decode_output_data_by_lookups:
  "by_lookups w st (snd (decode_output_data w st address input_data output_data chain))"
  by (auto simp: decode_output_data_def Let_def split: prod.splits option.splits
           intro: get_contract_info_by_lookups)

lemma format_value_by_lookups:
  "format_value w st v t chain = Inr (s, st') \<Longrightarrow> by_lookups w st st'"
  and format_elements_by_lookups:
  "format_elements w st vs t chain = Inr (ss, st') \<Longrightarrow> by_lookups w st st'"
proof (induction w st v t chain and w st vs t chain arbitrary: s st' and ss st'
       rule: format_value_format_elements.induct)
  case (1 w st v value_type chain)
  show ?case
  proof (cases "value_type = ''address''")
    case True
    then show ?thesis
      using "1.prems" get_contract_name_by_lookups [of w st _ chain]
      by (auto split: pyval.splits option.splits) (metis snd_conv)+
  next
    case False
    note na = this
    show ?thesis
    proof (cases "startswith value_type ''uint'' \<or> startswith value_type ''int''")
      case True
      then show ?thesis using na "1.prems" by (auto split: pyval.splits if_splits)
    next
      case False
      note ni = this
      show ?thesis
      proof (cases "value_type = ''bool'' \<or> startswith value_type ''bytes'' \<or> \<not> endswith value_type ''[]''")
        case True
        then show ?thesis using na ni "1.prems" by (auto split: pyval.splits if_splits)
      next
        case False
        then have nb: "value_type \<noteq> ''bool''" and ny: "\<not> startswith value_type ''bytes''"
          and e: "endswith value_type ''[]''" by auto
        show ?thesis
        proof (cases v)
          case (VTuple vs)
          with "1.prems" na ni nb ny e obtain ss where
            "format_elements w st vs (take (length value_type - 2) value_type) chain = Inr (ss, st')"
            by (auto split: sum.splits)
          then show ?thesis by (rule "1.IH"(1) [OF na ni nb ny e VTuple])
        next
          case (VList vs)
          with "1.prems" na ni nb ny e obtain ss where
            "format_elements w st vs (take (length value_type - 2) value_type) chain = Inr (ss, st')"
            by (auto split: sum.splits)
          then show ?thesis by (rule "1.IH"(2) [OF na ni nb ny e VList])
        qed (use "1.prems" na ni nb ny e in \<open>auto split: if_splits\<close>)
      qed
    qed
  qed
next
  case (2 w st element_type chain)
  then show ?case by simp
next
  case (3 w st elem rest element_type chain)
  from "3.prems" obtain s st1 ss' where
    f: "format_value w st elem element_type chain = Inr (s, st1)"
    and r: "format_elements w st1 rest element_type chain = Inr (ss', st')"
    by (auto split: sum.splits)
  from "3.IH"(1) [OF f] "3.IH"(2) [OF f refl r] show ?case by (rule by_lookups_trans)
qed

lemma format_params_loop_by_lookups:
  "format_params_loop w st ps chain = Inr (ss, st') \<Longrightarrow> by_lookups w st st'"
proof (induction ps arbitrary: st ss)
  case Nil
  then show ?case by simp
next
  case (Cons p ps)
  obtain n t v where p: "p = (n, t, v)" by (cases p)
  from Cons.prems p obtain s st1 ss' where
    f: "format_value w st v t chain = Inr (s, st1)"
    and r: "format_params_loop w st1 ps chain = Inr (ss', st')"
    by (auto split: sum.splits simp del: format_value.simps)
  from format_value_by_lookups [OF f] Cons.IH [OF r] show ?case by (rule by_lookups_trans)
qed

lemma format_parameters_by_lookups:
  "format_parameters w st ps chain = Inr (s, st') \<Longrightarrow> by_lookups w st st'"
  using format_params_loop_by_lookups [of w st ps chain]
  by (auto simp: format_parameters_def split: if_splits sum.splits)

lemma call_text_by_lookups:
  assumes "call_text w st item chain = Inr (call, st')"
  shows "by_lookups w st st'"
proof -
  let ?input = "get2 (t_action item) a_input ''''"
  let ?output = "get2 (t_result item) r_output ''''"
  obtain cn st1 where c: "get_contract_name w st (to_address item) chain = (cn, st1)"
    by (cases "get_contract_name w st (to_address item) chain")
  obtain fn st2 where f: "get_function_name w st1 (to_address item) ?input chain = (fn, st2)"
    by (cases "get_function_name w st1 (to_address item) ?input chain")
  obtain ip st3 where i: "decode_input_data w st2 (to_address item) ?input chain = (ip, st3)"
    by (cases "decode_input_data w st2 (to_address item) ?input chain")
  obtain outp st4 where
    out: "decode_output_data w st3 (to_address item) ?input ?output chain = (outp, st4)"
    by (cases "decode_output_data w st3 (to_address item) ?input ?output chain")
  from assms c f i out obtain istr st5 ostr where
    fi: "format_parameters w st4 ip chain = Inr (istr, st5)"
    and fo: "format_parameters w st5 outp chain = Inr (ostr, st')"
    by (auto simp: call_text_def Let_def split: sum.splits)
  have "by_lookups w st st1" using get_contract_name_by_lookups [of w st "to_address item" chain] c by simp
  moreover have "by_lookups w st1 st2"
    using get_function_name_by_lookups [of w st1 "to_address item" ?input chain] f by simp
  moreover have "by_lookups w st2 st3"
    using decode_input_data_by_lookups [of w st2 "to_address item" ?input chain] i by simp
  moreover have "by_lookups w st3 st4"
    using decode_output_data_by_lookups [of w st3 "to_address item" ?input ?output chain] out by simp
  moreover note format_parameters_by_lookups [OF fi] format_parameters_by_lookups [OF fo]
  ultimately show ?thesis by (blast intro: by_lookups_trans)
qed

lemma format_trace_item_by_lookups:
  "format_trace_item w st item level chain inc = Inr (r, st') \<Longrightarrow> by_lookups w st st'"
  using call_text_by_lookups [of w st item chain]
  by (auto simp: format_trace_item_def split: if_splits sum.splits)

lemma sender_lines_by_lookups: "by_lookups w st (snd (sender_lines w st item chain))"
  using get_contract_name_by_lookups [of w st "get2 (t_action item) a_from []" chain]
  by (auto simp: sender_lines_def Let_def split: prod.splits)

lemma trace_loop_by_lookups:
  "trace_loop w chain inc i st items = Inr (lines, st') \<Longrightarrow> by_lookups w st st'"
proof (induction items arbitrary: i st lines)
  case Nil
  then show ?case by simp
next
  case (Cons item rest)
  obtain sender st1 where s: "(if i = 0 then sender_lines w st item chain else ([], st)) = (sender, st1)"
    by (cases "if i = 0 then sender_lines w st item chain else ([], st)")
  from Cons.prems s obtain fl st2 ls where
    f: "format_trace_item w st1 item (level_of item) chain inc = Inr (fl, st2)"
    and r: "trace_loop w chain inc (Suc i) st2 rest = Inr (ls, st')"
    by (auto split: sum.splits)
  have "by_lookups w st st1"
    using s sender_lines_by_lookups [of w st item chain] by (auto split: if_splits)
  from this format_trace_item_by_lookups [OF f] have "by_lookups w st st2" by (rule by_lookups_trans)
  from this Cons.IH [OF r] show ?case by (rule by_lookups_trans)
qed

lemma parse_trace_by_lookups:
  "parse_trace w st result chain inc = Inr (lines, st') \<Longrightarrow> by_lookups w st st'"
  using trace_loop_by_lookups [of w chain inc 0 st result lines st']
  by (auto simp: parse_trace_def split: if_splits)

subsection \<open>What lookups preserve\<close>

lemma settled_by_lookups:
  "settled st a \<Longrightarrow> by_lookups w st st' \<Longrightarrow> settled st' a \<and> provider_calls st' a = provider_calls st a"
  unfolding by_lookups_def using settled_lookups by blast

lemma provider_calls_append [simp]:
  "provider_calls (st\<lparr>requests := requests st @ [(c, x)]\<rparr>) a
     = provider_calls st a + (if x = a then 1 else 0)"
  by (simp add: provider_calls_def)

lemma provider_calls_cache_update [simp]:
  "provider_calls (st\<lparr>contract_cache := m\<rparr>) a = provider_calls st a"
  by (simp add: provider_calls_def)

lemma fetched_once_step:
  assumes "always_definite w" and "fetched_once st"
  shows "fetched_once (snd (get_contract_info w st x c))"
proof (cases "contract_cache st (py_lower x) = None \<and> startswith (py_lower x) ''0x'' \<and> length (py_lower x) = 42")
  case False
  then have "settled st (py_lower x)" by (auto simp: settled_def)
  then show ?thesis using assms(2) by (simp add: get_contract_info_settled_same)
next
  case True
  then have z: "provider_calls st (py_lower x) = 0"
    using assms(2) by (auto simp: fetched_once_def)
  from assms(1) have "case fetch w (length (requests st)) (chain_ids c) (py_lower x) of
      NoResult \<Rightarrow> False
    | SourceResult name src abi_str \<Rightarrow> name = '''' \<or> src = '''' \<or> \<not> save_fails w name src"
    unfolding always_definite_def by blast
  then obtain name src abi_str where
    r: "fetch w (length (requests st)) (chain_ids c) (py_lower x) = SourceResult name src abi_str"
    and d: "name = '''' \<or> src = '''' \<or> \<not> save_fails w name src"
    by (cases "fetch w (length (requests st)) (chain_ids c) (py_lower x)") auto
  show ?thesis
    unfolding fetched_once_def
  proof
    fix a
    show "provider_calls (snd (get_contract_info w st x c)) a = 0
          \<or> (provider_calls (snd (get_contract_info w st x c)) a = 1
              \<and> contract_cache (snd (get_contract_info w st x c)) a \<noteq> None)"
      using True r d z assms(2) [unfolded fetched_once_def, THEN spec, of a]
      by (auto simp: get_contract_info_def Let_def)
  qed
qed

lemma fetched_once_lookups:
  "always_definite w \<Longrightarrow> fetched_once st \<Longrightarrow> fetched_once (lookups w st calls)"
proof (induction calls arbitrary: st)
  case Nil
  then show ?case by simp
next
  case (Cons p calls)
  obtain x c where p: "p = (x, c)" by (cases p)
  from Cons.prems have "fetched_once (snd (get_contract_info w st x c))" by (rule fetched_once_step)
  from Cons.IH [OF Cons.prems(1) this] show ?case by (simp add: p)
qed

lemma fetched_once_init: "fetched_once init_state"
  by (simp add: fetched_once_def init_state_def provider_calls_def)

lemma fetched_once_at_most:
  "fetched_once st \<Longrightarrow> provider_calls st a \<le> 1"
  by (auto simp: fetched_once_def dest: spec [of _ a])






lemma fetched_once_by_lookups:
  "always_definite w \<Longrightarrow> by_lookups w init_state st \<Longrightarrow> provider_calls st a \<le> 1"
  unfolding by_lookups_def
  using fetched_once_lookups [OF _ fetched_once_init] fetched_once_at_most by blast

lemma sum_result:
  "\<not> isl x \<Longrightarrow> fst (projr x) = lines \<Longrightarrow> \<exists>st'. x = Inr (lines, st')"
  by (cases x) auto

lemma sum_result_state:
  "\<not> isl x \<Longrightarrow> fst (projr x) = r \<Longrightarrow> x = Inr (r, snd (projr x))"
  by (cases x) auto

text \<open>
  Claim C1, as amended. A request is one call of \<open>_make_etherscan_request\<close>. When the
  request that a lookup of an address makes is answered with a contract name field (a
  verified contract, or an unverified one with the empty name) and saving the source
  does not fail, the lookup makes at most one request for the address, and from then on
  the address is never requested again: whatever lookups follow and whatever trace is
  rendered, with however many records that reference the address, the number of
  requests for it stays the same, and a later lookup of an address with the same
  lower-cased text is answered from the cache and leaves the state as it is. In a run
  from the initial state in which every request is answered in this way, the provider
  is asked at most once for each address. A lookup that gets no usable reply caches
  nothing.
\<close>
theorem resolved_address_is_not_fetched_again:
  assumes "definite_reply w st address chain" and "py_lower address' = py_lower address"
    and "parse_trace w (snd (get_contract_info w st address chain)) result chain' include_static_call
           = Inr (lines, st')"
  shows "provider_calls (snd (get_contract_info w st address chain)) (py_lower address)
           \<le> provider_calls st (py_lower address) + 1
       \<and> provider_calls (lookups w (snd (get_contract_info w st address chain)) later) (py_lower address)
           = provider_calls (snd (get_contract_info w st address chain)) (py_lower address)
       \<and> provider_calls st' (py_lower address)
           = provider_calls (snd (get_contract_info w st address chain)) (py_lower address)
       \<and> snd (get_contract_info w st' address' chain') = st'
       \<and> (always_definite w \<and> parse_trace w init_state result2 chain2 include2 = Inr (lines2, st2)
            \<longrightarrow> provider_calls st2 a \<le> 1)"
proof -
  let ?st1 = "snd (get_contract_info w st address chain)"
  have s: "settled ?st1 (py_lower address)" using assms(1) by (rule definite_reply_settles)
  have n: "provider_calls (lookups w ?st1 later) (py_lower address) = provider_calls ?st1 (py_lower address)"
    using settled_lookups [OF s, of w later] by simp
  have r: "settled st' (py_lower address')"
    and m: "provider_calls st' (py_lower address) = provider_calls ?st1 (py_lower address)"
    using settled_by_lookups [OF s parse_trace_by_lookups [OF assms(3)]] assms(2) by simp_all
  have g: "provider_calls st2 a \<le> 1"
    if "always_definite w" "parse_trace w init_state result2 chain2 include2 = Inr (lines2, st2)"
    using that(1) parse_trace_by_lookups [OF that(2)] by (rule fetched_once_by_lookups)
  show ?thesis
    using get_contract_info_one_request [of w st address chain "py_lower address"] n m
      get_contract_info_settled_same [OF r, of w chain'] g
    by simp
qed

text \<open>
  An unverified contract, looked up once in upper case; the example trace, whose three
  records and sender all reference it, is then rendered without a further request.
\<close>
lemma always_definite_unverified_world: "always_definite unverified_world"
  by (simp add: always_definite_def unverified_world_def offline_world_def)

theorem resolved_address_is_not_fetched_again_witness:
  "definite_reply unverified_world init_state ''0x5AAEB6053F3E94C9B9A09F33669435E7EF1BEAED'' ''ETH''
   \<and> py_lower address_a = py_lower ''0x5AAEB6053F3E94C9B9A09F33669435E7EF1BEAED''
   \<and> parse_trace unverified_world
        (snd (get_contract_info unverified_world init_state ''0x5AAEB6053F3E94C9B9A09F33669435E7EF1BEAED'' ''ETH''))
        example_trace ''ETH'' True
      = Inr ([''[Sender] 0x5aaeb6053f3e94c9b9a09f33669435e7ef1beaed'',
              ''0 [CALL] [value: 1.0 Ether] 0x5aaeb6053f3e94c9b9a09f33669435e7ef1beaed.<empty>() => ()'',
              ''  1 [STATICCALL] 0x5aaeb6053f3e94c9b9a09f33669435e7ef1beaed.0x70a08231() => ()'',
              ''    2 [DELEGATECALL] 0x5aaeb6053f3e94c9b9a09f33669435e7ef1beaed.0x12345678() => ()''],
             snd (projr (parse_trace unverified_world
               (snd (get_contract_info unverified_world init_state ''0x5AAEB6053F3E94C9B9A09F33669435E7EF1BEAED'' ''ETH''))
               example_trace ''ETH'' True)))
   \<and> provider_calls (snd (projr (parse_trace unverified_world
               (snd (get_contract_info unverified_world init_state ''0x5AAEB6053F3E94C9B9A09F33669435E7EF1BEAED'' ''ETH''))
               example_trace ''ETH'' True)))
         (py_lower ''0x5AAEB6053F3E94C9B9A09F33669435E7EF1BEAED'')
       = provider_calls
           (snd (get_contract_info unverified_world init_state ''0x5AAEB6053F3E94C9B9A09F33669435E7EF1BEAED'' ''ETH''))
           (py_lower ''0x5AAEB6053F3E94C9B9A09F33669435E7EF1BEAED'')
   \<and> provider_calls
        (snd (get_contract_info unverified_world init_state ''0x5AAEB6053F3E94C9B9A09F33669435E7EF1BEAED'' ''ETH''))
        (py_lower ''0x5AAEB6053F3E94C9B9A09F33669435E7EF1BEAED'') = 1
   \<and> always_definite unverified_world"
proof -
  let ?A = "''0x5AAEB6053F3E94C9B9A09F33669435E7EF1BEAED''"
  let ?st1 = "snd (get_contract_info unverified_world init_state ?A ''ETH'')"
  let ?x = "parse_trace unverified_world ?st1 example_trace ''ETH'' True"
  let ?lines = "[''[Sender] 0x5aaeb6053f3e94c9b9a09f33669435e7ef1beaed'',
              ''0 [CALL] [value: 1.0 Ether] 0x5aaeb6053f3e94c9b9a09f33669435e7ef1beaed.<empty>() => ()'',
              ''  1 [STATICCALL] 0x5aaeb6053f3e94c9b9a09f33669435e7ef1beaed.0x70a08231() => ()'',
              ''    2 [DELEGATECALL] 0x5aaeb6053f3e94c9b9a09f33669435e7ef1beaed.0x12345678() => ()'']"
  have d: "definite_reply unverified_world init_state ?A ''ETH''" by code_simp
  have l: "py_lower address_a = py_lower ?A" by code_simp
  have one: "provider_calls ?st1 (py_lower ?A) = 1" by code_simp
  have a: "\<not> isl ?x" by code_simp
  have b: "fst (projr ?x) = ?lines" by code_simp
  have h: "?x = Inr (?lines, snd (projr ?x))" using a b by (rule sum_result_state)
  note t = resolved_address_is_not_fetched_again [OF d l h]
  show ?thesis
  proof (intro conjI)
    show "definite_reply unverified_world init_state ?A ''ETH''" by (rule d)
    show "py_lower address_a = py_lower ?A" by (rule l)
    show "?x = Inr (?lines, snd (projr ?x))" by (rule h)
    show "provider_calls (snd (projr ?x)) (py_lower ?A) = provider_calls ?st1 (py_lower ?A)"
      by (rule t [THEN conjunct2, THEN conjunct2, THEN conjunct1])
    show "provider_calls ?st1 (py_lower ?A) = 1" by (rule one)
    show "always_definite unverified_world" by (rule always_definite_unverified_world)
  qed
qed

text \<open>
  Claim C1 as stated fails for a lookup that fails: the provider does not answer, nothing
  is cached, and a second lookup of the same address asks the provider a second time.
\<close>
theorem failed_lookup_is_repeated:
  "provider_calls (lookups offline_world init_state
      [(''0x5aaeb6053f3e94c9b9a09f33669435e7ef1beaed'', ''ETH''),
       (''0x5aaeb6053f3e94c9b9a09f33669435e7ef1beaed'', ''ETH'')])
     ''0x5aaeb6053f3e94c9b9a09f33669435e7ef1beaed'' = 2"
  by code_simp

section \<open>The trace renderer\<close>

lemma startswith_append [simp]: "startswith (p @ r) p"
  by (simp add: startswith_def)

lemma format_trace_item_suppressed:
  "\<not> emitted inc item \<Longrightarrow> format_trace_item w st item level chain inc = Inr (None, st)"
  by (simp add: format_trace_item_def emitted_def)

lemma format_trace_item_emitted:
  assumes "emitted inc item" and "format_trace_item w st item level chain inc = Inr (r, st')"
  shows "\<exists>l. r = Some l \<and> startswith l (line_head level (call_type item))"
  using assms
  by (auto simp: format_trace_item_def emitted_def split: sum.splits if_splits)

lemma trace_loop_later:
  "0 < i \<Longrightarrow> trace_loop w chain inc i st items = Inr (lines, st') \<Longrightarrow>
   list_all2 line_of (filter (emitted inc) items) lines"
proof (induction items arbitrary: i st lines)
  case Nil
  then show ?case by simp
next
  case (Cons item rest)
  from Cons.prems obtain fl st2 ls where
    f: "format_trace_item w st item (level_of item) chain inc = Inr (fl, st2)"
    and r: "trace_loop w chain inc (Suc i) st2 rest = Inr (ls, st')"
    and l: "lines = (case fl of None \<Rightarrow> [] | Some l \<Rightarrow> [l]) @ ls"
    by (auto split: sum.splits prod.splits)
  have ih: "list_all2 line_of (filter (emitted inc) rest) ls"
    using Cons.IH [OF _ r] by simp
  show ?case
  proof (cases "emitted inc item")
    case True
    from format_trace_item_emitted [OF True f] obtain x where
      "fl = Some x" "line_of item x" unfolding line_of_def by blast
    then show ?thesis using True ih l by simp
  next
    case False
    then have "fl = None" using f by (simp add: format_trace_item_suppressed)
    then show ?thesis using False ih l by simp
  qed
qed

lemma sender_lines_length:
  "length (fst (sender_lines w st item chain)) = sender_count (item # rest)"
  by (simp add: sender_lines_def sender_count_def Let_def split: prod.splits)

lemma sender_lines_text:
  "get2 (t_action item) a_from '''' \<noteq> '''' \<Longrightarrow>
   fst (sender_lines w st item chain)
     = [''[Sender] '' @ fst (get_contract_name w st (get2 (t_action item) a_from '''') chain)]"
  by (simp add: sender_lines_def Let_def split: prod.splits)

lemma trace_loop_first:
  assumes "trace_loop w chain inc 0 st (item # rest) = Inr (lines, st')"
  shows "\<exists>body. lines = fst (sender_lines w st item chain) @ body
           \<and> list_all2 line_of (filter (emitted inc) (item # rest)) body
           \<and> (\<not> emitted inc item \<and> rest = [] \<longrightarrow> body = [])"
proof -
  obtain sender st1 where s: "sender_lines w st item chain = (sender, st1)"
    by (cases "sender_lines w st item chain")
  from assms s obtain fl st2 ls where
    f: "format_trace_item w st1 item (level_of item) chain inc = Inr (fl, st2)"
    and r: "trace_loop w chain inc (Suc 0) st2 rest = Inr (ls, st')"
    and l: "lines = sender @ (case fl of None \<Rightarrow> [] | Some l \<Rightarrow> [l]) @ ls"
    by (auto split: sum.splits prod.splits)
  have tail: "list_all2 line_of (filter (emitted inc) rest) ls"
    using trace_loop_later [OF _ r] by simp
  have e: "rest = [] \<Longrightarrow> ls = []" using r by auto
  show ?thesis
  proof (cases "emitted inc item")
    case True
    from format_trace_item_emitted [OF True f] obtain x where
      "fl = Some x" "line_of item x" unfolding line_of_def by blast
    then show ?thesis using True tail l s by simp
  next
    case False
    then have "fl = None" using f by (simp add: format_trace_item_suppressed)
    then show ?thesis using False tail l s e by simp
  qed
qed

lemma parse_trace_lines:
  assumes "parse_trace w st result chain inc = Inr (lines, st')" and "result \<noteq> []"
  shows "list_all2 line_of (filter (emitted inc) result) (drop (sender_count result) lines)"
proof -
  from assms(2) obtain item rest where c: "result = item # rest" by (cases result) auto
  from assms have "trace_loop w chain inc 0 st (item # rest) = Inr (lines, st')"
    by (simp add: parse_trace_def c)
  from trace_loop_first [OF this] obtain body where
    "lines = fst (sender_lines w st item chain) @ body"
    "list_all2 line_of (filter (emitted inc) (item # rest)) body" by blast
  then show ?thesis
    using sender_lines_length [of w st item chain rest] by (simp add: c)
qed

lemma parse_trace_sender_count:
  assumes "parse_trace w st result chain inc = Inr (lines, st')" and "result \<noteq> []"
  shows "sender_count result \<le> length lines"
proof -
  from assms(2) obtain item rest where c: "result = item # rest" by (cases result) auto
  from assms have "trace_loop w chain inc 0 st (item # rest) = Inr (lines, st')"
    by (simp add: parse_trace_def c)
  from trace_loop_first [OF this] obtain body where
    "lines = fst (sender_lines w st item chain) @ body" by blast
  then show ?thesis
    using sender_lines_length [of w st item chain rest] by (simp add: c)
qed



lemma list_all2_filter_conj:
  "list_all2 P (filter Q xs) ys \<Longrightarrow> list_all2 (\<lambda>x y. P x y \<and> Q x) (filter Q xs) ys"
  by (induction xs arbitrary: ys) (auto simp: list_all2_Cons1)


text \<open>
  Claim C3. When a trace with at least one record is rendered, the lines after the sender
  line correspond one to one, and in order, to the records that are emitted: all of them
  with \<open>include_static_call\<close>, and only those whose label is not \<open>STATICCALL\<close> without it.
  Each line starts with the indentation, depth and label of its own record, so without
  \<open>include_static_call\<close> no line has the label \<open>STATICCALL\<close> and the depth of the other
  records is the same as with it; with \<open>include_static_call\<close> there is one line for
  every record.
\<close>
theorem staticcall_filtering:
  assumes "parse_trace w st result chain include_static_call = Inr (lines, st')" and "result \<noteq> []"
  shows "list_all2 (\<lambda>item l. line_of item l \<and> (include_static_call \<or> call_type item \<noteq> ''STATICCALL''))
           (filter (emitted include_static_call) result)
           (drop (sender_count result) lines)
       \<and> (include_static_call \<longrightarrow> length lines = sender_count result + length result)
       \<and> (\<not> include_static_call \<longrightarrow>
            length lines = sender_count result + length (filter (emitted False) result))"
proof -
  let ?kept = "filter (emitted include_static_call) result"
  let ?body = "drop (sender_count result) lines"
  have all: "list_all2 line_of ?kept ?body"
    using assms by (rule parse_trace_lines)
  have "list_all2 (\<lambda>item l. line_of item l \<and> emitted include_static_call item) ?kept ?body"
    using all by (rule list_all2_filter_conj)
  then have first: "list_all2 (\<lambda>item l. line_of item l \<and> (include_static_call \<or> call_type item \<noteq> ''STATICCALL'')) ?kept ?body"
    by (rule list_all2_mono) (simp add: emitted_def)
  have len: "length lines = sender_count result + length ?kept"
    using list_all2_lengthD [OF all] parse_trace_sender_count [OF assms] by simp
  have full: "include_static_call \<Longrightarrow> ?kept = result" by (simp add: emitted_def)
  show ?thesis
  proof (cases include_static_call)
    case True
    with first len full show ?thesis by simp
  next
    case False
    with first len show ?thesis by simp
  qed
qed

text \<open>The example trace rendered without its \<open>STATICCALL\<close> record.\<close>
theorem staticcall_filtering_witness:
  "(\<exists>st'. parse_trace unverified_world init_state example_trace ''ETH'' False
       = Inr ([''[Sender] 0x5aaeb6053f3e94c9b9a09f33669435e7ef1beaed'',
               ''0 [CALL] [value: 1.0 Ether] 0x5aaeb6053f3e94c9b9a09f33669435e7ef1beaed.<empty>() => ()'',
               ''    2 [DELEGATECALL] 0x5aaeb6053f3e94c9b9a09f33669435e7ef1beaed.0x12345678() => ()''], st'))
   \<and> example_trace \<noteq> []
   \<and> length [''[Sender] 0x5aaeb6053f3e94c9b9a09f33669435e7ef1beaed'',
               ''0 [CALL] [value: 1.0 Ether] 0x5aaeb6053f3e94c9b9a09f33669435e7ef1beaed.<empty>() => ()'',
               ''    2 [DELEGATECALL] 0x5aaeb6053f3e94c9b9a09f33669435e7ef1beaed.0x12345678() => ()'']
       = sender_count example_trace + length (filter (emitted False) example_trace)"
proof -
  let ?x = "parse_trace unverified_world init_state example_trace ''ETH'' False"
  let ?lines = "[''[Sender] 0x5aaeb6053f3e94c9b9a09f33669435e7ef1beaed'',
               ''0 [CALL] [value: 1.0 Ether] 0x5aaeb6053f3e94c9b9a09f33669435e7ef1beaed.<empty>() => ()'',
               ''    2 [DELEGATECALL] 0x5aaeb6053f3e94c9b9a09f33669435e7ef1beaed.0x12345678() => ()'']"
  have a: "\<not> isl ?x" by code_simp
  have b: "fst (projr ?x) = ?lines" by code_simp
  from sum_result [OF a b] obtain st' where h: "?x = Inr (?lines, st')" ..
  have ne: "example_trace \<noteq> []" by (simp add: example_trace_def)
  have nf: "\<not> False" by (rule notI)
  show ?thesis
  proof (intro conjI)
    show "\<exists>st'. ?x = Inr (?lines, st')" using h by (rule exI)
    show "example_trace \<noteq> []" by (rule ne)
    show "length ?lines = sender_count example_trace + length (filter (emitted False) example_trace)"
      using nf by (rule staticcall_filtering [OF h ne, THEN conjunct2, THEN conjunct2, THEN mp])
  qed
qed



text \<open>
  Claim C10. For a trace whose first record has a non-empty \<open>from\<close> address, the output
  starts with the line \<open>[Sender]\<close> and the resolved name of that address, whether or not
  the record itself is emitted: when the first record is the only one and is a
  suppressed \<open>STATICCALL\<close>, the sender line is the whole output.
\<close>
theorem sender_line_is_unconditional:
  assumes "parse_trace w st (item # rest) chain include_static_call = Inr (lines, st')"
    and "get2 (t_action item) a_from '''' \<noteq> ''''"
  shows "\<exists>more. lines = (''[Sender] '' @ fst (get_contract_name w st (get2 (t_action item) a_from '''') chain)) # more
           \<and> (\<not> include_static_call \<and> call_type item = ''STATICCALL'' \<and> rest = [] \<longrightarrow> more = [])"
proof -
  from assms(1) have "trace_loop w chain include_static_call 0 st (item # rest) = Inr (lines, st')"
    by (simp add: parse_trace_def)
  from trace_loop_first [OF this] obtain body where
    l: "lines = fst (sender_lines w st item chain) @ body"
    and e: "\<not> emitted include_static_call item \<and> rest = [] \<longrightarrow> body = []" by blast
  show ?thesis
    using l e sender_lines_text [OF assms(2), of w st chain] by (simp add: emitted_def)
qed

text \<open>A single \<open>STATICCALL\<close> record, rendered without \<open>include_static_call\<close>.\<close>
theorem sender_line_is_unconditional_witness:
  "(\<exists>st'. parse_trace unverified_world init_state
            [call_item ''staticcall'' address_a address_a ''0x0'' ''0x70a08231'' []] ''ETH'' False
       = Inr ([''[Sender] 0x5aaeb6053f3e94c9b9a09f33669435e7ef1beaed''], st'))
   \<and> get2 (t_action (call_item ''staticcall'' address_a address_a ''0x0'' ''0x70a08231'' [])) a_from '''' \<noteq> ''''
   \<and> (\<exists>more. [''[Sender] 0x5aaeb6053f3e94c9b9a09f33669435e7ef1beaed'']
         = (''[Sender] '' @ fst (get_contract_name unverified_world init_state
              (get2 (t_action (call_item ''staticcall'' address_a address_a ''0x0'' ''0x70a08231'' [])) a_from '''') ''ETH'')) # more
         \<and> more = [])"
proof -
  let ?item = "call_item ''staticcall'' address_a address_a ''0x0'' ''0x70a08231'' []"
  let ?x = "parse_trace unverified_world init_state [?item] ''ETH'' False"
  have a: "\<not> isl ?x" by code_simp
  have b: "fst (projr ?x) = [''[Sender] 0x5aaeb6053f3e94c9b9a09f33669435e7ef1beaed'']" by code_simp
  from sum_result [OF a b] obtain st' where
    h: "?x = Inr ([''[Sender] 0x5aaeb6053f3e94c9b9a09f33669435e7ef1beaed''], st')" ..
  have f: "get2 (t_action ?item) a_from '''' \<noteq> ''''" by code_simp
  have s: "\<not> False \<and> call_type ?item = ''STATICCALL'' \<and> ([]::trace_item list) = []" by code_simp
  from sender_line_is_unconditional [OF h f] obtain more where
    m: "[''[Sender] 0x5aaeb6053f3e94c9b9a09f33669435e7ef1beaed'']
         = (''[Sender] '' @ fst (get_contract_name unverified_world init_state
              (get2 (t_action ?item) a_from '''') ''ETH'')) # more
        \<and> (\<not> False \<and> call_type ?item = ''STATICCALL'' \<and> ([]::trace_item list) = [] \<longrightarrow> more = [])" ..
  from m s have e: "more = []" by (rule conjunct2 [THEN mp])
  show ?thesis
  proof (intro conjI)
    show "\<exists>st'. ?x = Inr ([''[Sender] 0x5aaeb6053f3e94c9b9a09f33669435e7ef1beaed''], st')"
      using h by (rule exI)
    show "get2 (t_action ?item) a_from '''' \<noteq> ''''" by (rule f)
    show "\<exists>more. [''[Sender] 0x5aaeb6053f3e94c9b9a09f33669435e7ef1beaed'']
         = (''[Sender] '' @ fst (get_contract_name unverified_world init_state
              (get2 (t_action ?item) a_from '''') ''ETH'')) # more \<and> more = []"
      using conjI [OF conjunct1 [OF m] e] by (rule exI)
  qed
qed


section \<open>The value formatter\<close>


text \<open>
  Claim C7 does not hold of the code: the check for an array suffix comes after the
  checks for the prefixes \<open>uint\<close>, \<open>int\<close> and \<open>bytes\<close>, so an array of integers is taken
  by the integer branch, where a tuple is not an \<open>int\<close> and is rendered by \<open>str\<close>. The
  decoded array \<open>(1000, 2000)\<close> with the tag \<open>uint256[]\<close> is rendered as \<open>(1000, 2000)\<close>,
  while its elements with the tag \<open>uint256\<close> are rendered as \<open>1,000\<close> and \<open>2,000\<close>, so
  that the claim asks for \<open>[1,000, 2,000]\<close>.
\<close>
theorem integer_array_is_formatted_as_text:
  "format_value w st (VTuple [VInt 1000, VInt 2000]) ''uint256[]'' chain = Inr (''(1000, 2000)'', st)
   \<and> format_value w st (VInt 1000) ''uint256'' chain = Inr (''1,000'', st)
   \<and> format_value w st (VInt 2000) ''uint256'' chain = Inr (''2,000'', st)"
  by (simp add: startswith_def py_str_def str_int_def dec_digits.simps digit_char_def format_commas_def)



section \<open>The parameter decoder\<close>


















section \<open>The value annotation\<close>

lemma py_int_zero: "py_int 16 ''0x0'' = Some 0" "py_int 10 ''0'' = Some 0"
  by code_simp+

lemma value_str_zero: "value_str w ''0x0'' = Inr ''''"
  by (simp add: value_str_def)

lemma one_ether: "wei_to_ether ''0xde0b6b3a7640000'' = Inr 1000000000000000000"
  by code_simp

lemma one_ether_str: "float_str w 1000000000000000000 = ''1.0''"
  by (simp add: float_str_def str_int_def dec_digits.simps digit_char_def)

lemma value_str_one_ether: "value_str w ''0xde0b6b3a7640000'' = Inr ''[value: 1.0 Ether] ''"
  by (simp add: value_str_def one_ether one_ether_str)

lemma value_str_cases:
  assumes "value_str w v = Inr vstr"
  shows "\<exists>wei_int. (if startswith v ''0x'' then py_int 16 v else py_int 10 v) = Some wei_int
           \<and> vstr = (if 0 < wei_int then ''[value: '' @ float_str w wei_int @ '' Ether] '' else '''')"
proof (cases "v = ''0x0'' \<or> v = ''0''")
  case True
  then show ?thesis using assms py_int_zero
    by (auto simp: value_str_def startswith_def)
next
  case False
  then show ?thesis using assms
    by (auto simp: value_str_def wei_to_ether_def split: sum.splits option.splits if_splits)
qed

text \<open>
  Claim C9. The line of a rendered record consists of its head, the value annotation and
  the call text, and the annotation \<open>[value: X Ether]\<close> is there exactly when the value
  field, read as a hexadecimal integer after \<open>0x\<close> and as a decimal integer otherwise, is
  strictly positive (which is when its quotient by \<open>10 ** 18\<close> is). The value \<open>0x0\<close> gives
  no annotation, and the value \<open>0xde0b6b3a7640000\<close>, which is \<open>10 ** 18\<close> wei, gives
  \<open>[value: 1.0 Ether]\<close>.
\<close>
theorem value_annotation:
  assumes "format_trace_item w st item level chain include_static_call = Inr (Some line, st')"
  shows "(\<exists>wei_int call. item_wei item = Some wei_int
            \<and> call_text w st item chain = Inr (call, st')
            \<and> line = line_head level (call_type item)
                 @ (if 0 < wei_int then ''[value: '' @ float_str w wei_int @ '' Ether] '' else '''')
                 @ call)
       \<and> value_str w ''0x0'' = Inr ''''
       \<and> value_str w ''0xde0b6b3a7640000'' = Inr ''[value: 1.0 Ether] ''"
proof -
  from assms obtain vstr call where
    v: "value_str w (get2 (t_action item) a_value ''0x0'') = Inr vstr"
    and c: "call_text w st item chain = Inr (call, st')"
    and l: "line = line_head level (call_type item) @ vstr @ call"
    by (auto simp: format_trace_item_def split: if_splits sum.splits)
  from value_str_cases [OF v] obtain wei_int where
    "item_wei item = Some wei_int"
    "vstr = (if 0 < wei_int then ''[value: '' @ float_str w wei_int @ '' Ether] '' else '''')"
    by (auto simp: item_wei_def Let_def)
  with c l show ?thesis
    using value_str_zero value_str_one_ether by blast
qed

text \<open>The first record of the example trace, which carries one ether.\<close>
theorem value_annotation_witness:
  "format_trace_item unverified_world init_state
       (call_item ''call'' address_a address_a ''0xde0b6b3a7640000'' ''0x'' []) 0 ''ETH'' True
     = Inr (Some ''0 [CALL] [value: 1.0 Ether] 0x5aaeb6053f3e94c9b9a09f33669435e7ef1beaed.<empty>() => ()'',
            snd (projr (format_trace_item unverified_world init_state
                   (call_item ''call'' address_a address_a ''0xde0b6b3a7640000'' ''0x'' []) 0 ''ETH'' True)))
   \<and> (\<exists>wei_int call.
         item_wei (call_item ''call'' address_a address_a ''0xde0b6b3a7640000'' ''0x'' []) = Some wei_int
         \<and> call_text unverified_world init_state
              (call_item ''call'' address_a address_a ''0xde0b6b3a7640000'' ''0x'' []) ''ETH''
            = Inr (call, snd (projr (format_trace_item unverified_world init_state
                   (call_item ''call'' address_a address_a ''0xde0b6b3a7640000'' ''0x'' []) 0 ''ETH'' True)))
         \<and> ''0 [CALL] [value: 1.0 Ether] 0x5aaeb6053f3e94c9b9a09f33669435e7ef1beaed.<empty>() => ()''
            = line_head 0 (call_type (call_item ''call'' address_a address_a ''0xde0b6b3a7640000'' ''0x'' []))
              @ (if 0 < wei_int then ''[value: '' @ float_str unverified_world wei_int @ '' Ether] '' else '''')
              @ call)"
proof -
  let ?item = "call_item ''call'' address_a address_a ''0xde0b6b3a7640000'' ''0x'' []"
  let ?x = "format_trace_item unverified_world init_state ?item 0 ''ETH'' True"
  let ?line = "''0 [CALL] [value: 1.0 Ether] 0x5aaeb6053f3e94c9b9a09f33669435e7ef1beaed.<empty>() => ()''"
  have a: "\<not> isl ?x" by code_simp
  have b: "fst (projr ?x) = Some ?line" by code_simp
  have h: "?x = Inr (Some ?line, snd (projr ?x))"
    using a b by (rule sum_result_state)
  show ?thesis
    using h value_annotation [OF h, THEN conjunct1] by (rule conjI)
qed

end
